theory Spec2Isabelle
  imports Main "HOL-Library.Sublist" "HOL-Library.AList"
begin

section \<open>Python values used by keyvault\_client.py\<close>

text \<open>
  Strings are \<open>string\<close> (byte lists). \<open>str.startswith\<close>, \<open>str.endswith\<close> and
  \<open>str.lower\<close> are written out; \<open>lower\<close> maps the ASCII capitals and leaves every
  other byte alone, which decides the comparisons of the source (against \<open>true\<close> and
  the command names) the way Python does.
\<close>

definition startswith :: "string \<Rightarrow> string \<Rightarrow> bool" where
  "startswith s p = (take (length p) s = p)"

definition endswith :: "string \<Rightarrow> string \<Rightarrow> bool" where
  "endswith s p = (length p \<le> length s \<and> drop (length s - length p) s = p)"

definition lower_char :: "char \<Rightarrow> char" where
  "lower_char c =
     (let n = (of_char c :: nat) in if 65 \<le> n \<and> n \<le> 90 then char_of (n + 32) else c)"

definition str_lower :: "string \<Rightarrow> string" where
  "str_lower s = map lower_char s"

definition digit_char :: "nat \<Rightarrow> char" where
  "digit_char d = char_of (48 + d)"

function str_nat :: "nat \<Rightarrow> string" where
  "str_nat n = (if n < 10 then [digit_char n] else str_nat (n div 10) @ [digit_char (n mod 10)])"
  by pat_completeness auto
termination
  by (relation "measure (\<lambda>n. n)") auto

definition sq :: string where
  "sq = [CHR 0x27]"

definition nl :: string where
  "nl = [CHR 0x0A]"

text \<open>Truthiness of an \<open>Optional[str]\<close>: \<open>None\<close> and the empty string are falsy.\<close>

fun truthy :: "string option \<Rightarrow> bool" where
  "truthy None = False"
| "truthy (Some v) = (v \<noteq> [])"

text \<open>\<open>a or b\<close> on optional strings: the first operand when it is truthy, else the second.\<close>

definition py_or :: "string option \<Rightarrow> string option \<Rightarrow> string option" where
  "py_or a b = (if truthy a then a else b)"

subsection \<open>Exceptions\<close>

text \<open>
  The subclasses of \<open>Exception\<close> the program meets, each with its message.
  \<open>AzureError\<close> is the SDK's base class; its kind records which provider failure it is.
  \<open>SystemExit\<close> is not an \<open>Exception\<close> and is kept apart (see \<open>main\<close>).
\<close>

datatype azure_kind =
  ResourceNotFoundError | ClientAuthenticationError | ServiceRequestError | HttpResponseError

datatype exn =
  AzureError azure_kind string
| ValueError string
| AttributeError string
| OtherException string

fun exn_str :: "exn \<Rightarrow> string" where
  "exn_str (AzureError k m) = m"
| "exn_str (ValueError m) = m"
| "exn_str (AttributeError m) = m"
| "exn_str (OtherException m) = m"

fun is_AzureError :: "exn \<Rightarrow> bool" where
  "is_AzureError (AzureError k m) = True"
| "is_AzureError e = False"

section \<open>The external collaborators\<close>

subsection \<open>requests, ssl and the SDK's transport\<close>

datatype HTTPAdapter = HTTPAdapter

record Session =
  verify :: bool
  adapters :: "(string \<times> HTTPAdapter) list"

text \<open>\<open>requests.Session()\<close>: verification on, a default adapter for both schemes.\<close>

definition Session_new :: Session where
  "Session_new = \<lparr>verify = True,
     adapters = [(''https://'', HTTPAdapter), (''http://'', HTTPAdapter)]\<rparr>"

text \<open>\<open>Session.mount\<close>: store the adapter, then move the shorter prefixes behind it.\<close>

definition mount :: "string \<Rightarrow> HTTPAdapter \<Rightarrow> Session \<Rightarrow> Session" where
  "mount pfx adapter sess =
     (let a = AList.update pfx adapter (adapters sess)
      in sess\<lparr>adapters := filter (\<lambda>kv. \<not> length (fst kv) < length pfx) a
                            @ filter (\<lambda>kv. length (fst kv) < length pfx) a\<rparr>)"

datatype verify_mode = CERT_NONE | CERT_OPTIONAL | CERT_REQUIRED

datatype TLSVersion = MINIMUM_SUPPORTED | TLSv1 | TLSv1_1 | TLSv1_2 | TLSv1_3

record ssl_context =
  check_hostname :: bool
  ssl_verify_mode :: verify_mode
  minimum_version :: TLSVersion

definition create_default_context :: ssl_context where
  "create_default_context =
     \<lparr>check_hostname = True, ssl_verify_mode = CERT_REQUIRED,
      minimum_version = MINIMUM_SUPPORTED\<rparr>"

datatype RequestsTransport = RequestsTransport (session: Session)

datatype credential = DefaultAzureCredentialHandle

record SecretClient =
  sc_vault_url :: string
  sc_credential :: credential
  sc_transport :: RequestsTransport

subsection \<open>Process state and the SDK\<close>

text \<open>
  The state a run threads through: the process environment, the remote store (of any
  type \<open>'r\<close>), the lines printed so far, and whether urllib3's insecure-request
  warnings have been switched off.
\<close>

record 'r state =
  environ :: "string \<rightharpoonup> string"
  store :: 'r
  stdout :: "string list"
  warnings_disabled :: bool

text \<open>
  Everything the program calls but does not define is a field of \<open>sdk\<close>:
  \<open>load_dotenv\<close> (what it makes of the environment), the result of
  \<open>DefaultAzureCredential()\<close>, \<open>urlparse(url).hostname\<close>, and the three calls of the
  SDK's secret client against the store. A listing yields names and may then raise.
\<close>

record 'r sdk =
  load_dotenv :: "(string \<rightharpoonup> string) \<Rightarrow> (string \<rightharpoonup> string)"
  DefaultAzureCredential :: "exn + credential"
  urlparse_hostname :: "string \<Rightarrow> string option"
  client_get_secret :: "SecretClient \<Rightarrow> string \<Rightarrow> 'r \<Rightarrow> (exn + string option) \<times> 'r"
  client_set_secret :: "SecretClient \<Rightarrow> string \<Rightarrow> string \<Rightarrow> 'r \<Rightarrow> (exn + unit) \<times> 'r"
  client_list_properties_of_secrets :: "SecretClient \<Rightarrow> 'r \<Rightarrow> (string list \<times> exn option) \<times> 'r"

definition print :: "string \<Rightarrow> 'r state \<Rightarrow> 'r state" where
  "print line s = s\<lparr>stdout := stdout s @ [line]\<rparr>"

definition getenv :: "'r state \<Rightarrow> string \<Rightarrow> string option" where
  "getenv s k = environ s k"

definition getenv_default :: "'r state \<Rightarrow> string \<Rightarrow> string \<Rightarrow> string" where
  "getenv_default s k d = (case environ s k of None \<Rightarrow> d | Some v \<Rightarrow> v)"

section \<open>class AzureKeyVaultClient\<close>

record AzureKeyVaultClient =
  vault_url :: string
  disable_ssl_verify :: bool
  credential :: credential
  client :: SecretClient

subsection \<open>\_create\_transport\<close>

text \<open>The \<open>is_internal\<close> expression, on a hostname that is a string.\<close>

definition is_internal :: "string \<Rightarrow> bool" where
  "is_internal hostname =
     (startswith hostname ''10.'' \<or>
      startswith hostname ''192.168.'' \<or>
      startswith hostname ''172.'' \<or>
      hostname \<in> set [''localhost'', ''127.0.0.1''] \<or>
      \<not> endswith hostname ''.azure.net'')"

definition AttributeError_NoneType_startswith :: exn where
  "AttributeError_NoneType_startswith =
     AttributeError (sq @ ''NoneType'' @ sq @ '' object has no attribute '' @ sq @ ''startswith'' @ sq)"

text \<open>
  \<open>is_internal\<close> is computed before the override is looked at, so a hostname of
  \<open>None\<close> raises whatever the override says. In the strict branch the \<open>ssl_context\<close>
  is a local that the session never receives.
\<close>

definition create_transport ::
  "'r sdk \<Rightarrow> string \<Rightarrow> bool \<Rightarrow> 'r state \<Rightarrow> (exn + RequestsTransport) \<times> 'r state" where
  "create_transport sdk self_vault_url self_disable_ssl_verify s =
     (let session0 = Session_new in
      case urlparse_hostname sdk self_vault_url of
        None \<Rightarrow> (Inl AttributeError_NoneType_startswith, s)
      | Some hostname \<Rightarrow>
         (let internal = is_internal hostname;
              (session1, s1) =
                (if self_disable_ssl_verify \<or> internal then
                   (let sess = session0\<lparr>verify := False\<rparr>;
                        sa = s\<lparr>warnings_disabled := True\<rparr>
                    in if internal then
                         (sess, print (''Detected internal Key Vault ('' @ hostname
                                        @ '') - SSL verification disabled'') sa)
                       else
                         (sess, print ''WARNING: SSL verification is disabled. This should only be used for testing.'' sa))
                 else
                   (let ssl_ctx = create_default_context;
                        ssl_ctx = ssl_ctx\<lparr>check_hostname := True\<rparr>;
                        ssl_ctx = ssl_ctx\<lparr>ssl_verify_mode := CERT_REQUIRED\<rparr>;
                        ssl_ctx = ssl_ctx\<lparr>minimum_version := TLSv1_2\<rparr>;
                        sess = session0\<lparr>verify := True\<rparr>
                    in (sess, print ''Configured for public Azure Key Vault (strict SSL verification)'' s)));
              adapter = HTTPAdapter;
              session2 = mount ''https://'' adapter session1
          in (Inr (RequestsTransport session2), s1)))"

subsection \<open>\_get\_credential\<close>

definition no_credentials_message :: string where
  "no_credentials_message =
     ''No valid credentials found. Please ensure you have:'' @ nl @
     ''1. Azure CLI installed and logged in (az login)'' @ nl @
     ''2. Or running in Azure with managed identity enabled'' @ nl @
     ''3. AZURE_KEYVAULT_URL set in environment variables''"

definition get_credential :: "'r sdk \<Rightarrow> 'r state \<Rightarrow> (exn + credential) \<times> 'r state" where
  "get_credential sdk s =
     (case DefaultAzureCredential sdk of
        Inr c \<Rightarrow> (Inr c, s)
      | Inl e \<Rightarrow>
          (Inl (ValueError no_credentials_message),
           print (''DefaultAzureCredential failed: '' @ exn_str e) s))"

subsection \<open>\_\_init\_\_\<close>

definition no_url_message :: string where
  "no_url_message = ''AZURE_KEYVAULT_URL not found in environment variables or .env file''"

text \<open>
  The three steps of the constructor that a caller can observe, by name: the endpoint
  chosen (argument, else environment, read after \<open>load_dotenv\<close>), the override
  (argument, or the environment's toggle), and the trailing slash.
\<close>

definition configured_url :: "'r sdk \<Rightarrow> string option \<Rightarrow> 'r state \<Rightarrow> string option" where
  "configured_url sdk vault_url_arg s0 =
     py_or vault_url_arg
       (getenv (s0\<lparr>environ := load_dotenv sdk (environ s0)\<rparr>) ''AZURE_KEYVAULT_URL'')"

definition configured_disable :: "'r sdk \<Rightarrow> bool \<Rightarrow> 'r state \<Rightarrow> bool" where
  "configured_disable sdk disable_ssl_verify_arg s0 =
     (disable_ssl_verify_arg \<or>
      str_lower (getenv_default (s0\<lparr>environ := load_dotenv sdk (environ s0)\<rparr>)
                   ''DISABLE_SSL_VERIFY'' ''false'') = ''true'')"

definition ensure_trailing_slash :: "string \<Rightarrow> string" where
  "ensure_trailing_slash u = (if \<not> endswith u ''/'' then u @ ''/'' else u)"

definition init ::
  "'r sdk \<Rightarrow> string option \<Rightarrow> bool \<Rightarrow> 'r state \<Rightarrow> (exn + AzureKeyVaultClient) \<times> 'r state" where
  "init sdk vault_url_arg disable_ssl_verify_arg s0 =
     (let s1 = s0\<lparr>environ := load_dotenv sdk (environ s0)\<rparr>;
          url = configured_url sdk vault_url_arg s0;
          disable = configured_disable sdk disable_ssl_verify_arg s0
      in if \<not> truthy url then (Inl (ValueError no_url_message), s1)
         else
          (let u = ensure_trailing_slash (the url);
               s2 = print (''Connecting to Key Vault: '' @ u) s1;
               s3 = (if disable then print ''WARNING: SSL verification is disabled'' s2 else s2)
           in case get_credential sdk s3 of
                (Inl e, s4) \<Rightarrow> (Inl e, s4)
              | (Inr cred, s4) \<Rightarrow>
                 (case create_transport sdk u disable s4 of
                    (Inl e, s5) \<Rightarrow> (Inl e, s5)
                  | (Inr transport, s5) \<Rightarrow>
                      (Inr \<lparr>vault_url = u, disable_ssl_verify = disable, credential = cred,
                            client = \<lparr>sc_vault_url = u, sc_credential = cred,
                                      sc_transport = transport\<rparr>\<rparr>, s5))))"

subsection \<open>test\_connection\<close>

text \<open>Any exception of the listing is caught here, not only an \<open>AzureError\<close>.\<close>

definition check_mark :: string where
  "check_mark = [CHR 0xE2, CHR 0x9C, CHR 0x93]"

definition cross_mark :: string where
  "cross_mark = [CHR 0xE2, CHR 0x9C, CHR 0x97]"

definition test_connection ::
  "'r sdk \<Rightarrow> AzureKeyVaultClient \<Rightarrow> 'r state \<Rightarrow> bool \<times> 'r state" where
  "test_connection sdk self s =
     (let s1 = print ''Testing connection...'' s in
      case client_list_properties_of_secrets sdk (client self) (store s1) of
        ((secrets, None), r) \<Rightarrow>
          (True, print (check_mark @ '' Connection to Azure Key Vault successful! Found ''
                         @ str_nat (length secrets) @ '' secrets.'') (s1\<lparr>store := r\<rparr>))
      | ((secrets, Some e), r) \<Rightarrow>
          (False,
           print ''3. Check if the Key Vault URL is correct''
            (print (''2. Verify your Azure credentials with '' @ sq @ ''az login'' @ sq)
              (print ''1. For internal Key Vaults, try setting DISABLE_SSL_VERIFY=true''
                (print (nl @ ''Troubleshooting suggestions:'')
                  (print (cross_mark @ '' Connection to Azure Key Vault failed: '' @ exn_str e)
                    (s1\<lparr>store := r\<rparr>)))))))"

subsection \<open>get\_secret, set\_secret, list\_secrets\<close>

text \<open>
  Each catches \<open>AzureError\<close> only: another exception leaves the method (\<open>Inl\<close>).
\<close>

definition get_secret ::
  "'r sdk \<Rightarrow> AzureKeyVaultClient \<Rightarrow> string \<Rightarrow> 'r state \<Rightarrow> (exn + string option) \<times> 'r state" where
  "get_secret sdk self secret_name s =
     (case client_get_secret sdk (client self) secret_name (store s) of
        (Inr secret_value, r) \<Rightarrow> (Inr secret_value, s\<lparr>store := r\<rparr>)
      | (Inl e, r) \<Rightarrow>
          (if is_AzureError e then
             (Inr None,
              print (''Error retrieving secret '' @ sq @ secret_name @ sq @ '': '' @ exn_str e)
                (s\<lparr>store := r\<rparr>))
           else (Inl e, s\<lparr>store := r\<rparr>)))"

definition set_secret ::
  "'r sdk \<Rightarrow> AzureKeyVaultClient \<Rightarrow> string \<Rightarrow> string \<Rightarrow> 'r state \<Rightarrow> (exn + bool) \<times> 'r state" where
  "set_secret sdk self secret_name secret_value s =
     (case client_set_secret sdk (client self) secret_name secret_value (store s) of
        (Inr u, r) \<Rightarrow>
          (Inr True,
           print (''Secret '' @ sq @ secret_name @ sq @ '' set successfully'') (s\<lparr>store := r\<rparr>))
      | (Inl e, r) \<Rightarrow>
          (if is_AzureError e then
             (Inr False,
              print (''Error setting secret '' @ sq @ secret_name @ sq @ '': '' @ exn_str e)
                (s\<lparr>store := r\<rparr>))
           else (Inl e, s\<lparr>store := r\<rparr>)))"

definition list_secrets ::
  "'r sdk \<Rightarrow> AzureKeyVaultClient \<Rightarrow> 'r state \<Rightarrow> (exn + string list) \<times> 'r state" where
  "list_secrets sdk self s =
     (case client_list_properties_of_secrets sdk (client self) (store s) of
        ((names, None), r) \<Rightarrow> (Inr names, s\<lparr>store := r\<rparr>)
      | ((names, Some e), r) \<Rightarrow>
          (if is_AzureError e then
             (Inr [], print (''Error listing secrets: '' @ exn_str e) (s\<lparr>store := r\<rparr>))
           else (Inl e, s\<lparr>store := r\<rparr>)))"

subsection \<open>get\_multiple\_secrets\<close>

text \<open>
  The result dict is an association list in insertion order; \<open>results[k] = v\<close> is
  \<open>AList.update\<close>, which keeps the place of a key that is already there.
\<close>

fun get_multiple_loop ::
  "'r sdk \<Rightarrow> AzureKeyVaultClient \<Rightarrow> string list \<Rightarrow> (string \<times> string option) list \<Rightarrow> 'r state
     \<Rightarrow> (exn + (string \<times> string option) list) \<times> 'r state" where
  "get_multiple_loop sdk self [] results s = (Inr results, s)"
| "get_multiple_loop sdk self (secret_name # rest) results s =
     (case get_secret sdk self secret_name s of
        (Inl e, s') \<Rightarrow> (Inl e, s')
      | (Inr v, s') \<Rightarrow> get_multiple_loop sdk self rest (AList.update secret_name v results) s')"

definition get_multiple_secrets ::
  "'r sdk \<Rightarrow> AzureKeyVaultClient \<Rightarrow> string list \<Rightarrow> 'r state
     \<Rightarrow> (exn + (string \<times> string option) list) \<times> 'r state" where
  "get_multiple_secrets sdk self secret_names s = get_multiple_loop sdk self secret_names [] s"

text \<open>
  The spec's reading of the operation, for comparison: \<open>get\<close> applied to each name in
  sequence (\<open>get_each\<close>, the outcomes in the order of the calls), collected into a
  mapping as \<open>dict\<close> collects pairs (\<open>dict_of\<close>).
\<close>

fun get_each ::
  "'r sdk \<Rightarrow> AzureKeyVaultClient \<Rightarrow> string list \<Rightarrow> 'r state
     \<Rightarrow> (exn + (string \<times> string option) list) \<times> 'r state" where
  "get_each sdk self [] s = (Inr [], s)"
| "get_each sdk self (secret_name # rest) s =
     (case get_secret sdk self secret_name s of
        (Inl e, s') \<Rightarrow> (Inl e, s')
      | (Inr v, s') \<Rightarrow>
          (case get_each sdk self rest s' of
             (Inl e, s'') \<Rightarrow> (Inl e, s'')
           | (Inr outcomes, s'') \<Rightarrow> (Inr ((secret_name, v) # outcomes), s'')))"

definition dict_of :: "(string \<times> string option) list \<Rightarrow> (string \<times> string option) list" where
  "dict_of pairs = foldl (\<lambda>d kv. AList.update (fst kv) (snd kv) d) [] pairs"

section \<open>main\<close>

definition usage :: "string list" where
  "usage =
     [''Usage:'',
      ''  python keyvault_client.py test'',
      ''  python keyvault_client.py get <secret_name>'',
      ''  python keyvault_client.py set <secret_name> <secret_value>'',
      ''  python keyvault_client.py list'',
      ''  python keyvault_client.py get-multiple <secret1> <secret2> ...'',
      nl @ ''Environment variables:'',
      ''  DISABLE_SSL_VERIFY=true  # Disable SSL verification (testing only)'']"

definition print_all :: "string list \<Rightarrow> 'r state \<Rightarrow> 'r state" where
  "print_all ls s = foldl (\<lambda>st l. print l st) s ls"

definition not_found_message :: "string \<Rightarrow> string" where
  "not_found_message secret_name =
     ''Secret '' @ sq @ secret_name @ sq @ '' not found or error occurred''"

definition result_line :: "string \<times> string option \<Rightarrow> string" where
  "result_line nv =
     (if truthy (snd nv) then fst nv @ '': '' @ the (snd nv) else fst nv @ '': [NOT FOUND]'')"

text \<open>
  The body of the \<open>try\<close>, entered with at least two arguments. \<open>Inl e\<close>: the exception
  \<open>e\<close> reached the handler; \<open>Inr (Some n)\<close>: \<open>sys.exit(n)\<close>, which the handler does
  not catch; \<open>Inr None\<close>: the body ran to its end.
\<close>

definition main_try ::
  "'r sdk \<Rightarrow> string list \<Rightarrow> 'r state \<Rightarrow> (exn + nat option) \<times> 'r state" where
  "main_try sdk argv s0 =
     (let disable_ssl = (str_lower (getenv_default s0 ''DISABLE_SSL_VERIFY'' ''false'') = ''true'') in
      case init sdk None disable_ssl s0 of
        (Inl e, s1) \<Rightarrow> (Inl e, s1)
      | (Inr cl, s1) \<Rightarrow>
         (let command = str_lower (argv ! 1) in
          if command = ''test'' then
            (case test_connection sdk cl s1 of (ok, s2) \<Rightarrow> (Inr None, s2))
          else if command = ''get'' \<and> length argv \<ge> 3 then
            (let secret_name = argv ! 2 in
             case get_secret sdk cl secret_name s1 of
               (Inl e, s2) \<Rightarrow> (Inl e, s2)
             | (Inr v, s2) \<Rightarrow>
                 (if truthy v then (Inr None, print (secret_name @ '': '' @ the v) s2)
                  else (Inr None, print (not_found_message secret_name) s2)))
          else if command = ''set'' \<and> length argv \<ge> 4 then
            (let secret_name = argv ! 2; secret_value = argv ! 3 in
             case set_secret sdk cl secret_name secret_value s1 of
               (Inl e, s2) \<Rightarrow> (Inl e, s2)
             | (Inr success, s2) \<Rightarrow> (if \<not> success then (Inr (Some 1), s2) else (Inr None, s2)))
          else if command = ''list'' then
            (case list_secrets sdk cl s1 of
               (Inl e, s2) \<Rightarrow> (Inl e, s2)
             | (Inr secrets, s2) \<Rightarrow>
                 (if secrets \<noteq> [] then
                    (Inr None, print_all (map (\<lambda>secret. ''  - '' @ secret) secrets)
                                 (print ''Available secrets:'' s2))
                  else (Inr None, print ''No secrets found or error occurred'' s2)))
          else if command = ''get-multiple'' \<and> length argv \<ge> 3 then
            (let secret_names = drop 2 argv in
             case get_multiple_secrets sdk cl secret_names s1 of
               (Inl e, s2) \<Rightarrow> (Inl e, s2)
             | (Inr results, s2) \<Rightarrow> (Inr None, print_all (map result_line results) s2))
          else (Inr (Some 1), print ''Invalid command or missing arguments'' s1)))"

text \<open>The process: its exit status (0 when \<open>main\<close> returns) and its final state.\<close>

definition main :: "'r sdk \<Rightarrow> string list \<Rightarrow> 'r state \<Rightarrow> nat \<times> 'r state" where
  "main sdk argv s0 =
     (if length argv < 2 then (1, print_all usage s0)
      else
        (case main_try sdk argv s0 of
           (Inl e, s1) \<Rightarrow> (1, print (''Error: '' @ exn_str e) s1)
         | (Inr (Some n), s1) \<Rightarrow> (n, s1)
         | (Inr None, s1) \<Rightarrow> (0, s1)))"

section \<open>A stub store for concrete runs\<close>

text \<open>
  A small provider to run the program on: the store is an association list of secrets,
  reachable or not. When it is not, every call raises the SDK's \<open>ServiceRequestError\<close>;
  a missing secret raises \<open>ResourceNotFoundError\<close>. \<open>stub_hostname\<close> stands in
  for \<open>urlparse(url).hostname\<close> on plain lower-case https URLs (no port, no user
  part), and yields \<open>None\<close> for a URL without that scheme, as \<open>urlparse\<close> does.
\<close>

definition stub_hostname :: "string \<Rightarrow> string option" where
  "stub_hostname url =
     (if startswith url ''https://'' then
        (let h = takeWhile (\<lambda>c. c \<noteq> CHR ''/'') (drop 8 url)
         in if h = [] then None else Some h)
      else None)"

definition unreachable :: exn where
  "unreachable = AzureError ServiceRequestError ''connection refused''"

definition stub_sdk :: "bool \<Rightarrow> (string \<times> string) list sdk" where
  "stub_sdk up =
     \<lparr>load_dotenv = (\<lambda>env. env),
      DefaultAzureCredential = Inr DefaultAzureCredentialHandle,
      urlparse_hostname = stub_hostname,
      client_get_secret = (\<lambda>c name kv.
         if \<not> up then (Inl unreachable, kv)
         else (case map_of kv name of
                 None \<Rightarrow> (Inl (AzureError ResourceNotFoundError ''SecretNotFound''), kv)
               | Some v \<Rightarrow> (Inr (Some v), kv))),
      client_set_secret = (\<lambda>c name v kv.
         if \<not> up then (Inl unreachable, kv) else (Inr (), AList.update name v kv)),
      client_list_properties_of_secrets = (\<lambda>c kv.
         if \<not> up then (([], Some unreachable), kv) else ((map fst kv, None), kv))\<rparr>"

definition stub_state :: "(string \<rightharpoonup> string) \<Rightarrow> (string \<times> string) list
    \<Rightarrow> (string \<times> string) list state" where
  "stub_state env kv = \<lparr>environ = env, store = kv, stdout = [], warnings_disabled = False\<rparr>"

definition public_env :: "string \<rightharpoonup> string" where
  "public_env = [''AZURE_KEYVAULT_URL'' \<mapsto> ''https://myvault.vault.azure.net'']"

definition override_env :: "string \<rightharpoonup> string" where
  "override_env = [''AZURE_KEYVAULT_URL'' \<mapsto> ''https://myvault.vault.azure.net'',
                   ''DISABLE_SSL_VERIFY'' \<mapsto> ''true'']"

definition noscheme_env :: "string \<rightharpoonup> string" where
  "noscheme_env = [''AZURE_KEYVAULT_URL'' \<mapsto> ''myvault.vault.azure.net'']"

definition stub_client :: "bool \<Rightarrow> AzureKeyVaultClient" where
  "stub_client disable =
     \<lparr>vault_url = ''https://myvault.vault.azure.net/'', disable_ssl_verify = disable,
      credential = DefaultAzureCredentialHandle,
      client = \<lparr>sc_vault_url = ''https://myvault.vault.azure.net/'',
                sc_credential = DefaultAzureCredentialHandle,
                sc_transport = RequestsTransport (Session_new\<lparr>verify := \<not> disable\<rparr>)\<rparr>\<rparr>"

text \<open>The stub's state once the client for \<open>public_env\<close> has been constructed.\<close>

definition stub_started :: "(string \<times> string) list \<Rightarrow> (string \<times> string) list state" where
  "stub_started kv =
     \<lparr>environ = public_env, store = kv,
      stdout = [''Connecting to Key Vault: https://myvault.vault.azure.net/'',
                ''Configured for public Azure Key Vault (strict SSL verification)''],
      warnings_disabled = False\<rparr>"

section \<open>Properties\<close>

subsection \<open>Strings\<close>

lemma startswith_prefix: "startswith s p = prefix p s"
  by (auto simp: startswith_def prefix_def) (metis append_eq_conv_conj)

lemma endswith_suffix: "endswith s p = suffix p s"
  by (auto simp: endswith_def suffix_def) (metis append_take_drop_id)

lemma endswith_slash_last:
  assumes "endswith u ''/''"
  shows "u \<noteq> [] \<and> last u = CHR ''/''"
proof -
  from assms have len: "1 \<le> length u" and d: "drop (length u - 1) u = ''/''"
    by (simp_all add: endswith_def)
  have "u = take (length u - 1) u @ ''/''"
    using d append_take_drop_id [of "length u - 1" u] by simp
  then have "last u = last (take (length u - 1) u @ ''/'')" by simp
  then have "last u = CHR ''/''" by (simp only: last_snoc)
  moreover from len have "u \<noteq> []" by auto
  ultimately show ?thesis by simp
qed

lemma ensure_trailing_slash_last:
  "ensure_trailing_slash u \<noteq> [] \<and> last (ensure_trailing_slash u) = CHR ''/''"
  using endswith_slash_last [of u] by (simp add: ensure_trailing_slash_def)

subsection \<open>Transport and constructor\<close>

lemma verify_mount: "verify (mount pfx a sess) = verify sess"
  by (simp add: mount_def Let_def)

lemma create_transport_Some:
  assumes "urlparse_hostname sdk url = Some h"
  shows "\<exists>t s'. create_transport sdk url d s = (Inr t, s') \<and>
           verify (session t) = (\<not> (d \<or> is_internal h))"
  using assms by (simp add: create_transport_def Let_def verify_mount)

lemma create_transport_None:
  assumes "urlparse_hostname sdk url = None"
  shows "create_transport sdk url d s = (Inl AttributeError_NoneType_startswith, s)"
  using assms by (simp add: create_transport_def)


lemma get_credential_cases:
  "(\<exists>cr. DefaultAzureCredential sdk = Inr cr \<and> get_credential sdk s = (Inr cr, s)) \<or>
   (\<exists>s'. get_credential sdk s = (Inl (ValueError no_credentials_message), s'))"
  by (cases "DefaultAzureCredential sdk") (simp_all add: get_credential_def)

lemma init_no_url:
  assumes "\<not> truthy (configured_url sdk a s0)"
  shows "init sdk a d s0 =
           (Inl (ValueError no_url_message), s0\<lparr>environ := load_dotenv sdk (environ s0)\<rparr>)"
  using assms by (simp add: init_def Let_def)

lemma init_Inr:
  assumes "init sdk a d s0 = (Inr c, s')"
  shows "truthy (configured_url sdk a s0) \<and>
         vault_url c = ensure_trailing_slash (the (configured_url sdk a s0)) \<and>
         disable_ssl_verify c = configured_disable sdk d s0 \<and>
         sc_vault_url (client c) = vault_url c \<and>
         (\<exists>s4. create_transport sdk (vault_url c) (disable_ssl_verify c) s4
                  = (Inr (sc_transport (client c)), s'))"
  using assms
  by (auto simp: init_def Let_def split: if_splits prod.splits sum.splits)

lemma init_returns:
  assumes "truthy (configured_url sdk a s0)"
      and "DefaultAzureCredential sdk = Inr cr"
      and "urlparse_hostname sdk (ensure_trailing_slash (the (configured_url sdk a s0))) = Some h"
  shows "\<exists>c s'. init sdk a d s0 = (Inr c, s')"
proof -
  have cred: "\<And>s. get_credential sdk s = (Inr cr, s)"
    using assms(2) by (simp add: get_credential_def)
  have tr: "\<And>dd s e s'. create_transport sdk (ensure_trailing_slash (the (configured_url sdk a s0))) dd s \<noteq> (Inl e, s')"
    using create_transport_Some [OF assms(3)] by (metis Inl_Inr_False prod.inject)
  show ?thesis
    using assms(1)
    by (auto simp: init_def Let_def cred tr split: prod.splits sum.splits)
qed

text \<open>The definitions a concrete run on the stub unfolds.\<close>

lemmas stub_run =
  init_def stub_sdk_def stub_state_def public_env_def override_env_def noscheme_env_def
  stub_client_def configured_url_def configured_disable_def ensure_trailing_slash_def
  py_or_def getenv_def getenv_default_def str_lower_def lower_char_def endswith_def
  startswith_def print_def get_credential_def create_transport_def stub_hostname_def
  is_internal_def Session_new_def mount_def Let_def

subsection \<open>The trust classifier\<close>

text \<open>
  C1. With no override, the transport built for a vault URL whose hostname is \<open>h\<close> is
  relaxed (its session does not verify certificates) exactly when \<open>h\<close> begins with
  \<open>10.\<close>, \<open>192.168.\<close> or \<open>172.\<close>, or is \<open>localhost\<close> or \<open>127.0.0.1\<close>, or does
  not end with \<open>.azure.net\<close>; for every other hostname it is strict. The call returns
  a transport for every such hostname.
\<close>

theorem trust_classifier:
  assumes "urlparse_hostname sdk url = Some h"
  shows "\<exists>t s'. create_transport sdk url False s = (Inr t, s') \<and>
           (\<not> verify (session t) \<longleftrightarrow>
              prefix ''10.'' h \<or> prefix ''192.168.'' h \<or> prefix ''172.'' h \<or>
              h = ''localhost'' \<or> h = ''127.0.0.1'' \<or> \<not> suffix ''.azure.net'' h)"
proof -
  obtain t s' where r: "create_transport sdk url False s = (Inr t, s')"
    and v: "verify (session t) = (\<not> is_internal h)"
    using create_transport_Some [OF assms, of False s] by auto
  have "is_internal h \<longleftrightarrow>
          prefix ''10.'' h \<or> prefix ''192.168.'' h \<or> prefix ''172.'' h \<or>
          h = ''localhost'' \<or> h = ''127.0.0.1'' \<or> \<not> suffix ''.azure.net'' h"
    by (simp add: is_internal_def startswith_prefix endswith_suffix)
  with r v show ?thesis by simp
qed

lemma stub_hostname_public:
  "stub_hostname ''https://myvault.vault.azure.net/'' = Some ''myvault.vault.azure.net''"
  by (simp add: stub_hostname_def startswith_def)

theorem trust_classifier_witness:
  "urlparse_hostname (stub_sdk True) ''https://myvault.vault.azure.net/'' = Some ''myvault.vault.azure.net''
   \<and> (\<exists>t s'. create_transport (stub_sdk True) ''https://myvault.vault.azure.net/'' False (stub_state public_env []) = (Inr t, s')
         \<and> verify (session t))"
proof -
  have h: "urlparse_hostname (stub_sdk True) ''https://myvault.vault.azure.net/'' = Some ''myvault.vault.azure.net''"
    by (simp add: stub_sdk_def stub_hostname_public)
  show ?thesis
    using h trust_classifier [OF h, of "stub_state public_env []"]
    by (simp add: suffix_to_prefix)
qed

subsection \<open>The override\<close>



subsection \<open>A vault URL without a hostname\<close>

text \<open>
  C10. When \<open>urlparse\<close> finds no hostname in the vault URL, transport creation raises
  the \<open>AttributeError\<close> of \<open>None.startswith\<close>, with or without the override, and
  leaves the state as it was (nothing is printed). Construction for such an endpoint
  never returns a client, and once a credential was obtained the exception that leaves
  the constructor is that \<open>AttributeError\<close>, not a \<open>ValueError\<close> diagnostic.
\<close>

theorem no_hostname_attribute_error:
  assumes "urlparse_hostname sdk url = None"
  shows "create_transport sdk url d s = (Inl AttributeError_NoneType_startswith, s) \<and>
         (configured_url sdk url_arg s0 = Some u \<and> u \<noteq> [] \<and> ensure_trailing_slash u = url \<longrightarrow>
            (\<forall>c s'. init sdk url_arg flag s0 \<noteq> (Inr c, s')) \<and>
            (\<forall>cr. DefaultAzureCredential sdk = Inr cr \<longrightarrow>
                   fst (init sdk url_arg flag s0) = Inl AttributeError_NoneType_startswith))"
proof (intro conjI impI allI)
  show "create_transport sdk url d s = (Inl AttributeError_NoneType_startswith, s)"
    by (rule create_transport_None [OF assms])
next
  fix c s'
  assume u: "configured_url sdk url_arg s0 = Some u \<and> u \<noteq> [] \<and> ensure_trailing_slash u = url"
  show "init sdk url_arg flag s0 \<noteq> (Inr c, s')"
  proof
    assume r: "init sdk url_arg flag s0 = (Inr c, s')"
    from init_Inr [OF r] u obtain s4 where
      "create_transport sdk url (disable_ssl_verify c) s4 = (Inr (sc_transport (client c)), s')"
      by auto
    then show False by (simp add: create_transport_None [OF assms])
  qed
next
  fix cr
  assume u: "configured_url sdk url_arg s0 = Some u \<and> u \<noteq> [] \<and> ensure_trailing_slash u = url"
     and cr: "DefaultAzureCredential sdk = Inr cr"
  have cred: "\<And>s. get_credential sdk s = (Inr cr, s)"
    using cr by (simp add: get_credential_def)
  show "fst (init sdk url_arg flag s0) = Inl AttributeError_NoneType_startswith"
    using u by (simp add: init_def Let_def cred create_transport_None [OF assms])
qed

theorem no_hostname_attribute_error_witness:
  "urlparse_hostname (stub_sdk True) ''myvault.vault.azure.net/'' = None
   \<and> create_transport (stub_sdk True) ''myvault.vault.azure.net/'' True (stub_state noscheme_env [])
       = (Inl AttributeError_NoneType_startswith, stub_state noscheme_env [])
   \<and> fst (init (stub_sdk True) None False (stub_state noscheme_env []))
       = Inl AttributeError_NoneType_startswith"
proof -
  have a: "urlparse_hostname (stub_sdk True) ''myvault.vault.azure.net/'' = None"
    by (simp add: stub_run)
  have b: "configured_url (stub_sdk True) None (stub_state noscheme_env []) = Some ''myvault.vault.azure.net''
           \<and> ''myvault.vault.azure.net'' \<noteq> []
           \<and> ensure_trailing_slash ''myvault.vault.azure.net'' = ''myvault.vault.azure.net/''"
    by (simp add: stub_run)
  have c: "DefaultAzureCredential (stub_sdk True) = Inr DefaultAzureCredentialHandle"
    by (simp add: stub_run)
  show ?thesis
    using a b c
      no_hostname_attribute_error [OF a, of True "stub_state noscheme_env []" None
        "stub_state noscheme_env []" "''myvault.vault.azure.net''" False]
    by blast
qed

subsection \<open>The vault endpoint\<close>

lemma main_init_fails:
  assumes "init sdk None (str_lower (getenv_default s0 ''DISABLE_SSL_VERIFY'' ''false'') = ''true'') s0
             = (Inl e, s1)"
  shows "fst (main sdk argv s0) = 1"
  using assms by (simp add: main_def main_try_def Let_def)

text \<open>
  C8. A client that construction returns has a non-empty endpoint ending in \<open>/\<close>, the
  same one it handed to the SDK's client; for a configured endpoint without the trailing
  slash it is that string with \<open>/\<close> appended. With no endpoint (argument and environment
  both missing or empty) the constructor raises its \<open>ValueError\<close>, and \<open>main\<close> exits
  with status 1. No method of the class returns or updates the client record: the
  operations below take it as an argument only, so the endpoint stays what construction
  made it.
\<close>

theorem endpoint_invariant:
  "(init sdk url_arg flag s0 = (Inr c, s') \<longrightarrow>
      vault_url c \<noteq> [] \<and> last (vault_url c) = CHR ''/'' \<and>
      sc_vault_url (client c) = vault_url c \<and>
      (\<forall>u. configured_url sdk url_arg s0 = Some u \<and> \<not> endswith u ''/''
           \<longrightarrow> vault_url c = u @ ''/'')) \<and>
   (\<not> truthy (configured_url sdk url_arg s0) \<longrightarrow>
      fst (init sdk url_arg flag s0) = Inl (ValueError no_url_message)) \<and>
   (\<not> truthy (configured_url sdk None s0) \<longrightarrow> fst (main sdk argv s0) = 1)"
proof (intro conjI impI)
  assume r: "init sdk url_arg flag s0 = (Inr c, s')"
  from init_Inr [OF r] have v: "vault_url c = ensure_trailing_slash (the (configured_url sdk url_arg s0))"
    and sc: "sc_vault_url (client c) = vault_url c" by simp_all
  show "vault_url c \<noteq> []" using v ensure_trailing_slash_last by simp
  show "last (vault_url c) = CHR ''/''" using v ensure_trailing_slash_last by simp
  show "sc_vault_url (client c) = vault_url c" by (rule sc)
  show "\<forall>u. configured_url sdk url_arg s0 = Some u \<and> \<not> endswith u ''/''
           \<longrightarrow> vault_url c = u @ ''/''"
    using v by (auto simp: ensure_trailing_slash_def)
next
  assume "\<not> truthy (configured_url sdk url_arg s0)"
  then show "fst (init sdk url_arg flag s0) = Inl (ValueError no_url_message)"
    by (simp add: init_no_url)
next
  assume n: "\<not> truthy (configured_url sdk None s0)"
  show "fst (main sdk argv s0) = 1"
    using main_init_fails [OF init_no_url [OF n]] .
qed

theorem endpoint_invariant_witness:
  "(\<exists>c s'. init (stub_sdk True) (Some ''https://v.example.com'') False (stub_state Map.empty [])
              = (Inr c, s')
          \<and> vault_url c = ''https://v.example.com/'' \<and> last (vault_url c) = CHR ''/'')
   \<and> fst (init (stub_sdk True) None False (stub_state Map.empty [])) = Inl (ValueError no_url_message)
   \<and> fst (main (stub_sdk True) [''keyvault_client.py'', ''list''] (stub_state Map.empty [])) = 1"
proof -
  let ?s = "stub_state Map.empty []"
  have u: "configured_url (stub_sdk True) (Some ''https://v.example.com'') ?s
             = Some ''https://v.example.com''"
    by (simp add: stub_run)
  have ne: "\<not> endswith ''https://v.example.com'' ''/''"
    by (simp add: endswith_def)
  have "urlparse_hostname (stub_sdk True)
          (ensure_trailing_slash (the (configured_url (stub_sdk True) (Some ''https://v.example.com'') ?s)))
        = Some ''v.example.com''"
    by (simp add: stub_run)
  moreover have "DefaultAzureCredential (stub_sdk True) = Inr DefaultAzureCredentialHandle"
    by (simp add: stub_run)
  ultimately obtain c s' where
    r: "init (stub_sdk True) (Some ''https://v.example.com'') False ?s = (Inr c, s')"
    using init_returns [of "stub_sdk True" "Some ''https://v.example.com''" ?s] u by fastforce
  have n: "\<not> truthy (configured_url (stub_sdk True) None ?s)"
    by (simp add: stub_run)
  show ?thesis
    using r u ne n
      endpoint_invariant [of "stub_sdk True" "Some ''https://v.example.com''" False ?s c s'
        "[''keyvault_client.py'', ''list'']"]
      endpoint_invariant [of "stub_sdk True" None False ?s c s' "[''keyvault_client.py'', ''list'']"]
    by auto
qed

subsection \<open>The strict transport\<close>

lemma mount_default: "mount ''https://'' HTTPAdapter (Session_new\<lparr>verify := True\<rparr>) = Session_new"
  by (simp add: mount_def Session_new_def)

text \<open>
  C5. For a hostname the classifier takes as public, with no override, the transport's
  session is exactly a fresh \<open>requests\<close> session with a default adapter mounted:
  \<open>verify\<close> is on, and nothing of the \<open>ssl_context\<close> that the strict branch builds
  (hostname check, \<open>CERT_REQUIRED\<close>, minimum version TLS 1.2) is part of it. The
  minimum protocol version is therefore not set on the session that carries the requests.
\<close>

theorem strict_transport_is_default_session:
  assumes "urlparse_hostname sdk url = Some h" and "\<not> is_internal h"
  shows "fst (create_transport sdk url False s) = Inr (RequestsTransport Session_new)"
  using assms by (simp add: create_transport_def Let_def mount_default)

theorem strict_transport_is_default_session_witness:
  "urlparse_hostname (stub_sdk True) ''https://myvault.vault.azure.net/'' = Some ''myvault.vault.azure.net''
   \<and> \<not> is_internal ''myvault.vault.azure.net''
   \<and> fst (create_transport (stub_sdk True) ''https://myvault.vault.azure.net/'' False
             (stub_state public_env []))
       = Inr (RequestsTransport
               \<lparr>verify = True, adapters = [(''https://'', HTTPAdapter), (''http://'', HTTPAdapter)]\<rparr>)"
proof -
  have a: "urlparse_hostname (stub_sdk True) ''https://myvault.vault.azure.net/'' = Some ''myvault.vault.azure.net''"
    by (simp add: stub_run)
  have b: "\<not> is_internal ''myvault.vault.azure.net''"
    by (simp add: stub_run)
  show ?thesis
    using a b strict_transport_is_default_session [OF a b, of "stub_state public_env []"]
    by (simp add: Session_new_def)
qed

subsection \<open>The facade\<close>

lemma get_secret_azure:
  assumes "client_get_secret sdk (client self) n (store s) = (Inl (AzureError k m), r)"
  shows "fst (get_secret sdk self n s) = Inr None"
  using assms by (simp add: get_secret_def)

lemma set_secret_azure:
  assumes "client_set_secret sdk (client self) n v (store s) = (Inl (AzureError k m), r)"
  shows "fst (set_secret sdk self n v s) = Inr False"
  using assms by (simp add: set_secret_def)

lemma set_secret_True:
  assumes "fst (set_secret sdk self n v s) = Inr True"
  shows "\<exists>r. client_set_secret sdk (client self) n v (store s) = (Inr (), r)"
  using assms
  by (cases "client_set_secret sdk (client self) n v (store s)")
     (auto simp: set_secret_def split: sum.splits if_splits)

text \<open>
  C2. Whatever the name, when the provider's call fails with an \<open>AzureError\<close> of any
  kind (not found, authentication, network, other) \<open>get_secret\<close> returns \<open>None\<close> and
  \<open>set_secret\<close> returns \<open>False\<close>; neither raises. \<open>set_secret\<close> returns \<open>True\<close>
  only when the provider's call returned. Two failures, of whatever kinds, messages,
  names or stores, give the same returned value.
\<close>

theorem facade_failures_collapse:
  "(client_get_secret sdk (client self) n (store s) = (Inl (AzureError k m), r)
      \<longrightarrow> fst (get_secret sdk self n s) = Inr None) \<and>
   (client_set_secret sdk (client self) n v (store s) = (Inl (AzureError k m), r)
      \<longrightarrow> fst (set_secret sdk self n v s) = Inr False) \<and>
   (fst (set_secret sdk self n v s) = Inr True
      \<longrightarrow> (\<exists>r'. client_set_secret sdk (client self) n v (store s) = (Inr (), r'))) \<and>
   (client_get_secret sdk (client self) n (store s) = (Inl (AzureError k m), r) \<and>
    client_get_secret sdk2 (client self2) n2 (store s2) = (Inl (AzureError k2 m2), r2)
      \<longrightarrow> fst (get_secret sdk self n s) = fst (get_secret sdk2 self2 n2 s2)) \<and>
   (client_set_secret sdk (client self) n v (store s) = (Inl (AzureError k m), r) \<and>
    client_set_secret sdk2 (client self2) n2 v2 (store s2) = (Inl (AzureError k2 m2), r2)
      \<longrightarrow> fst (set_secret sdk self n v s) = fst (set_secret sdk2 self2 n2 v2 s2))"
  by (auto simp: get_secret_azure set_secret_azure dest: set_secret_True)

theorem facade_failures_collapse_witness:
  "client_get_secret (stub_sdk False) (client (stub_client False)) ''k''
       (store (stub_state public_env [(''k'', ''v'')]))
     = (Inl (AzureError ServiceRequestError ''connection refused''), [(''k'', ''v'')])
   \<and> client_get_secret (stub_sdk True) (client (stub_client False)) ''missing''
       (store (stub_state public_env [(''k'', ''v'')]))
     = (Inl (AzureError ResourceNotFoundError ''SecretNotFound''), [(''k'', ''v'')])
   \<and> client_set_secret (stub_sdk False) (client (stub_client False)) ''k'' ''w''
       (store (stub_state public_env [(''k'', ''v'')]))
     = (Inl (AzureError ServiceRequestError ''connection refused''), [(''k'', ''v'')])
   \<and> fst (get_secret (stub_sdk False) (stub_client False) ''k'' (stub_state public_env [(''k'', ''v'')]))
       = Inr None
   \<and> fst (get_secret (stub_sdk True) (stub_client False) ''missing'' (stub_state public_env [(''k'', ''v'')]))
       = Inr None
   \<and> fst (set_secret (stub_sdk False) (stub_client False) ''k'' ''w'' (stub_state public_env [(''k'', ''v'')]))
       = Inr False
   \<and> fst (set_secret (stub_sdk True) (stub_client False) ''k'' ''w'' (stub_state public_env [(''k'', ''v'')]))
       = Inr True
   \<and> (\<exists>r'. client_set_secret (stub_sdk True) (client (stub_client False)) ''k'' ''w''
       (store (stub_state public_env [(''k'', ''v'')])) = (Inr (), r'))"
proof -
  let ?s = "stub_state public_env [(''k'', ''v'')]"
  let ?c = "stub_client False"
  have g1: "client_get_secret (stub_sdk False) (client ?c) ''k'' (store ?s)
              = (Inl (AzureError ServiceRequestError ''connection refused''), [(''k'', ''v'')])"
    by (simp add: stub_sdk_def stub_state_def unreachable_def)
  have g2: "client_get_secret (stub_sdk True) (client ?c) ''missing'' (store ?s)
              = (Inl (AzureError ResourceNotFoundError ''SecretNotFound''), [(''k'', ''v'')])"
    by (simp add: stub_sdk_def stub_state_def)
  have s1: "client_set_secret (stub_sdk False) (client ?c) ''k'' ''w'' (store ?s)
              = (Inl (AzureError ServiceRequestError ''connection refused''), [(''k'', ''v'')])"
    by (simp add: stub_sdk_def stub_state_def unreachable_def)
  have s2: "fst (set_secret (stub_sdk True) ?c ''k'' ''w'' ?s) = Inr True"
    by (simp add: stub_sdk_def stub_state_def set_secret_def)
  note f1 = facade_failures_collapse [where sdk = "stub_sdk False" and self = ?c and n = "''k''"
      and s = ?s and k = ServiceRequestError and m = "''connection refused''"
      and r = "[(''k'', ''v'')]" and v = "''w''" and ?sdk2.0 = "stub_sdk True" and ?self2.0 = ?c
      and ?n2.0 = "''missing''" and ?s2.0 = ?s and ?k2.0 = ResourceNotFoundError
      and ?m2.0 = "''SecretNotFound''" and ?r2.0 = "[(''k'', ''v'')]" and ?v2.0 = "''w''"]
  note f2 = facade_failures_collapse [where sdk = "stub_sdk True" and self = ?c and n = "''k''"
      and s = ?s and k = ServiceRequestError and m = "''connection refused''"
      and r = "[(''k'', ''v'')]" and v = "''w''" and ?sdk2.0 = "stub_sdk True" and ?self2.0 = ?c
      and ?n2.0 = "''missing''" and ?s2.0 = ?s and ?k2.0 = ResourceNotFoundError
      and ?m2.0 = "''SecretNotFound''" and ?r2.0 = "[(''k'', ''v'')]" and ?v2.0 = "''w''"]
  from g1 g2 s1 f1 have a: "fst (get_secret (stub_sdk False) ?c ''k'' ?s) = Inr None"
    and b: "fst (get_secret (stub_sdk True) ?c ''missing'' ?s) = Inr None"
    and c: "fst (set_secret (stub_sdk False) ?c ''k'' ''w'' ?s) = Inr False"
    by metis+
  from s2 f2 have d: "\<exists>r'. client_set_secret (stub_sdk True) (client ?c) ''k'' ''w'' (store ?s) = (Inr (), r')"
    by blast
  from g1 g2 s1 a b c s2 d show ?thesis by blast
qed

text \<open>
  C6. \<open>list_secrets\<close> returns the empty list when the listing fails with an
  \<open>AzureError\<close> (also after it has yielded names), and when the store is reachable and
  holds no secret; the two returned values are equal.
\<close>

theorem list_failure_looks_empty:
  "(client_list_properties_of_secrets sdk (client self) (store s) = ((names, Some (AzureError k m)), r)
      \<longrightarrow> fst (list_secrets sdk self s) = Inr []) \<and>
   (client_list_properties_of_secrets sdk (client self) (store s) = (([], None), r)
      \<longrightarrow> fst (list_secrets sdk self s) = Inr []) \<and>
   (client_list_properties_of_secrets sdk (client self) (store s) = ((names, Some (AzureError k m)), r) \<and>
    client_list_properties_of_secrets sdk2 (client self2) (store s2) = (([], None), r2)
      \<longrightarrow> fst (list_secrets sdk self s) = fst (list_secrets sdk2 self2 s2))"
  by (simp add: list_secrets_def)

theorem list_failure_looks_empty_witness:
  "client_list_properties_of_secrets (stub_sdk False) (client (stub_client False))
       (store (stub_state public_env [(''k'', ''v'')]))
     = (([], Some (AzureError ServiceRequestError ''connection refused'')), [(''k'', ''v'')])
   \<and> client_list_properties_of_secrets (stub_sdk True) (client (stub_client False))
       (store (stub_state public_env [])) = (([], None), [])
   \<and> fst (list_secrets (stub_sdk False) (stub_client False) (stub_state public_env [(''k'', ''v'')])) = Inr []
   \<and> fst (list_secrets (stub_sdk True) (stub_client False) (stub_state public_env [])) = Inr []
   \<and> fst (list_secrets (stub_sdk False) (stub_client False) (stub_state public_env [(''k'', ''v'')]))
       = fst (list_secrets (stub_sdk True) (stub_client False) (stub_state public_env []))"
proof -
  let ?c = "stub_client False"
  have a: "client_list_properties_of_secrets (stub_sdk False) (client ?c)
             (store (stub_state public_env [(''k'', ''v'')]))
           = (([], Some (AzureError ServiceRequestError ''connection refused'')), [(''k'', ''v'')])"
    by (simp add: stub_sdk_def stub_state_def unreachable_def)
  have b: "client_list_properties_of_secrets (stub_sdk True) (client ?c)
             (store (stub_state public_env [])) = (([], None), [])"
    by (simp add: stub_sdk_def stub_state_def)
  from a b
    list_failure_looks_empty [of "stub_sdk False" ?c "stub_state public_env [(''k'', ''v'')]" "[]"
      ServiceRequestError "''connection refused''" "[(''k'', ''v'')]" "stub_sdk True" ?c
      "stub_state public_env []" "[]"]
    list_failure_looks_empty [of "stub_sdk True" ?c "stub_state public_env []" "[]"
      ServiceRequestError "''connection refused''" "[]"]
  show ?thesis by simp
qed

subsection \<open>get\_multiple\_secrets\<close>

text \<open>
  What \<open>get_secret\<close> returns depends on the state through the store alone, and the
  store after it is the one the provider's call left.
\<close>

lemma get_secret_store_only:
  assumes "store s = store s'"
  shows "fst (get_secret sdk self n s) = fst (get_secret sdk self n s')"
  using assms
  by (cases "client_get_secret sdk (client self) n (store s')")
     (auto simp: get_secret_def split: sum.splits)

lemma get_secret_store:
  "store (snd (get_secret sdk self n s)) = snd (client_get_secret sdk (client self) n (store s))"
  by (cases "client_get_secret sdk (client self) n (store s)")
     (auto simp: get_secret_def print_def split: sum.splits)

lemma get_secret_returns:
  assumes "\<forall>e. fst (client_get_secret sdk (client self) n (store s)) = Inl e \<longrightarrow> is_AzureError e"
  shows "\<exists>v. fst (get_secret sdk self n s) = Inr v"
  using assms
  by (cases "client_get_secret sdk (client self) n (store s)")
     (auto simp: get_secret_def split: sum.splits)

lemma get_multiple_loop_inv:
  assumes "\<forall>n\<in>set names. \<forall>r. snd (client_get_secret sdk (client self) n r) = r"
      and "\<forall>n\<in>set names. \<forall>e.
             fst (client_get_secret sdk (client self) n (store s)) = Inl e \<longrightarrow> is_AzureError e"
      and "distinct (map fst acc)"
  shows "\<exists>results s'. get_multiple_loop sdk self names acc s = (Inr results, s') \<and>
           store s' = store s \<and> distinct (map fst results) \<and>
           (\<forall>n. map_of results n =
                  (if n \<in> set names
                   then (case fst (get_secret sdk self n s) of Inr v \<Rightarrow> Some v | Inl e \<Rightarrow> None)
                   else map_of acc n))"
  using assms
proof (induction names arbitrary: acc s)
  case Nil
  then show ?case by simp
next
  case (Cons x xs)
  obtain v where v: "fst (get_secret sdk self x s) = Inr v"
    using get_secret_returns [of sdk self x s] Cons.prems(2) by auto
  define s1 where "s1 = snd (get_secret sdk self x s)"
  have g: "get_secret sdk self x s = (Inr v, s1)"
    using v by (simp add: s1_def prod_eq_iff)
  have st: "store s1 = store s"
    using Cons.prems(1) by (simp add: s1_def get_secret_store)
  have same: "\<And>n. fst (get_secret sdk self n s1) = fst (get_secret sdk self n s)"
    by (rule get_secret_store_only [OF st])
  have p1: "\<forall>n\<in>set xs. \<forall>r. snd (client_get_secret sdk (client self) n r) = r"
    using Cons.prems(1) by simp
  have p2: "\<forall>n\<in>set xs. \<forall>e.
             fst (client_get_secret sdk (client self) n (store s1)) = Inl e \<longrightarrow> is_AzureError e"
    using Cons.prems(2) st by simp
  have p3: "distinct (map fst (AList.update x v acc))"
    using Cons.prems(3) by (simp add: distinct_update)
  from Cons.IH [OF p1 p2 p3] obtain results s' where
    r: "get_multiple_loop sdk self xs (AList.update x v acc) s1 = (Inr results, s')"
    and st': "store s' = store s1" and d: "distinct (map fst results)"
    and m: "\<forall>n. map_of results n =
                  (if n \<in> set xs
                   then (case fst (get_secret sdk self n s1) of Inr v \<Rightarrow> Some v | Inl e \<Rightarrow> None)
                   else map_of (AList.update x v acc) n)"
    by blast
  have "get_multiple_loop sdk self (x # xs) acc s = (Inr results, s')"
    using g r by simp
  moreover have "store s' = store s" using st st' by simp
  moreover have "\<forall>n. map_of results n =
                  (if n \<in> set (x # xs)
                   then (case fst (get_secret sdk self n s) of Inr v \<Rightarrow> Some v | Inl e \<Rightarrow> None)
                   else map_of acc n)"
    using m v by (auto simp: same update_conv')
  ultimately show ?case using d by blast
qed

lemma get_multiple_loop_get_each:
  "get_multiple_loop sdk self names acc s =
     (case get_each sdk self names s of
        (Inl e, s') \<Rightarrow> (Inl e, s')
      | (Inr ps, s') \<Rightarrow> (Inr (foldl (\<lambda>d kv. AList.update (fst kv) (snd kv) d) acc ps), s'))"
proof (induction names arbitrary: acc s)
  case Nil
  show ?case by simp
next
  case (Cons x xs)
  show ?case
    by (simp add: Cons.IH split: prod.splits sum.splits)
qed

lemma get_each_names:
  "get_each sdk self names s = (Inr ps, s') \<Longrightarrow> map fst ps = names"
proof (induction names arbitrary: ps s)
  case Nil
  then show ?case by simp
next
  case (Cons x xs)
  then show ?case
    by (auto split: prod.splits sum.splits)
qed

lemma map_of_foldl_update:
  "map_of (foldl (\<lambda>d kv. AList.update (fst kv) (snd kv) d) acc ps) = map_of acc ++ map_of (rev ps)"
proof (induction ps arbitrary: acc)
  case Nil
  show ?case by simp
next
  case (Cons p ps)
  have "map_of (AList.update (fst p) (snd p) acc) ++ map_of (rev ps)
          = map_of acc ++ (map_of (rev ps @ [p]))"
    by (cases p) (simp add: update_conv' map_add_upd_left fun_eq_iff map_add_def split: option.splits)
  then show ?case by (simp add: Cons.IH)
qed

lemma distinct_foldl_update:
  "distinct (map fst acc) \<Longrightarrow>
   distinct (map fst (foldl (\<lambda>d kv. AList.update (fst kv) (snd kv) d) acc ps))"
  by (induction ps arbitrary: acc) (simp_all add: distinct_update)

lemma dict_of_props:
  "map_of (dict_of ps) = map_of (rev ps) \<and> distinct (map fst (dict_of ps)) \<and>
   fst ` set (dict_of ps) = fst ` set ps"
proof -
  have m: "map_of (dict_of ps) = map_of (rev ps)"
    by (simp add: dict_of_def map_of_foldl_update)
  have "dom (map_of (dict_of ps)) = dom (map_of (rev ps))" by (simp only: m)
  then have "fst ` set (dict_of ps) = fst ` set ps"
    by (simp add: dom_map_of_conv_image_fst)
  with m show ?thesis by (simp add: dict_of_def distinct_foldl_update)
qed

lemma get_multiple_stable_reads:
  assumes "\<forall>n\<in>set names. \<forall>r. snd (client_get_secret sdk (client self) n r) = r"
      and "\<forall>n\<in>set names. \<forall>e.
             fst (client_get_secret sdk (client self) n (store s)) = Inl e \<longrightarrow> is_AzureError e"
  shows "\<exists>results s'. get_multiple_secrets sdk self names s = (Inr results, s') \<and>
           fst ` set results = set names \<and> distinct (map fst results) \<and>
           (\<forall>n\<in>set names. \<exists>v. map_of results n = Some v \<and>
                                 fst (get_secret sdk self n s) = Inr v)"
proof -
  from get_multiple_loop_inv [OF assms, of "[]"] obtain results s' where
    r: "get_multiple_loop sdk self names [] s = (Inr results, s')"
    and d: "distinct (map fst results)"
    and m: "\<forall>n. map_of results n =
                  (if n \<in> set names
                   then (case fst (get_secret sdk self n s) of Inr v \<Rightarrow> Some v | Inl e \<Rightarrow> None)
                   else None)"
    by auto
  have each: "\<forall>n\<in>set names. \<exists>v. map_of results n = Some v \<and> fst (get_secret sdk self n s) = Inr v"
  proof
    fix n assume n: "n \<in> set names"
    obtain v where "fst (get_secret sdk self n s) = Inr v"
      using get_secret_returns [of sdk self n s] assms(2) n by auto
    with m n show "\<exists>v. map_of results n = Some v \<and> fst (get_secret sdk self n s) = Inr v"
      by simp
  qed
  have "dom (map_of results) = set names"
  proof (rule set_eqI)
    fix n show "n \<in> dom (map_of results) \<longleftrightarrow> n \<in> set names"
      using each m by (cases "n \<in> set names") auto
  qed
  then have "fst ` set results = set names" by (simp add: dom_map_of_conv_image_fst)
  with r d each show ?thesis by (auto simp: get_multiple_secrets_def)
qed

text \<open>
  C7. \<open>get_multiple_secrets\<close> is \<open>get_secret\<close> applied to each name in sequence, the
  outcomes collected into a dict: it raises what the first raising \<open>get_secret\<close> raises,
  and otherwise returns the dict of the outcomes, whose keys are exactly the listed names
  (each once) and where a name listed twice has the outcome of its last call. When
  reading a listed name leaves the store as it is and the provider's failures for the
  listed names are \<open>AzureError\<close>s, it returns, and every listed name is mapped to what
  \<open>get_secret\<close> returns for that name: a name whose read fails is mapped to \<open>None\<close> and
  the other names keep their own values.
\<close>

theorem get_multiple_is_get_each:
  "get_multiple_secrets sdk self names s =
     (case get_each sdk self names s of
        (Inl e, s') \<Rightarrow> (Inl e, s')
      | (Inr outcomes, s') \<Rightarrow> (Inr (dict_of outcomes), s')) \<and>
   (\<forall>outcomes s'. get_each sdk self names s = (Inr outcomes, s') \<longrightarrow>
      map fst outcomes = names \<and> fst ` set (dict_of outcomes) = set names \<and>
      distinct (map fst (dict_of outcomes)) \<and>
      map_of (dict_of outcomes) = map_of (rev outcomes)) \<and>
   ((\<forall>n\<in>set names. \<forall>r. snd (client_get_secret sdk (client self) n r) = r) \<and>
    (\<forall>n\<in>set names. \<forall>e.
        fst (client_get_secret sdk (client self) n (store s)) = Inl e \<longrightarrow> is_AzureError e)
      \<longrightarrow> (\<exists>results s'. get_multiple_secrets sdk self names s = (Inr results, s') \<and>
             fst ` set results = set names \<and> distinct (map fst results) \<and>
             (\<forall>n\<in>set names. \<exists>v. map_of results n = Some v \<and>
                                   fst (get_secret sdk self n s) = Inr v)))"
proof -
  have p1: "get_multiple_secrets sdk self names s =
     (case get_each sdk self names s of
        (Inl e, s') \<Rightarrow> (Inl e, s')
      | (Inr outcomes, s') \<Rightarrow> (Inr (dict_of outcomes), s'))"
    by (simp add: get_multiple_secrets_def dict_of_def get_multiple_loop_get_each
          split: prod.splits sum.splits)
  have p2: "map fst outcomes = names \<and> fst ` set (dict_of outcomes) = set names \<and>
      distinct (map fst (dict_of outcomes)) \<and>
      map_of (dict_of outcomes) = map_of (rev outcomes)"
    if g: "get_each sdk self names s = (Inr outcomes, s')" for outcomes s'
  proof -
    from get_each_names [OF g] have n: "map fst outcomes = names" .
    then have "fst ` set outcomes = set names" by (metis set_map)
    with n dict_of_props [of outcomes] show ?thesis by simp
  qed
  have p3: "\<exists>results s'. get_multiple_secrets sdk self names s = (Inr results, s') \<and>
             fst ` set results = set names \<and> distinct (map fst results) \<and>
             (\<forall>n\<in>set names. \<exists>v. map_of results n = Some v \<and>
                                   fst (get_secret sdk self n s) = Inr v)"
    if "(\<forall>n\<in>set names. \<forall>r. snd (client_get_secret sdk (client self) n r) = r) \<and>
        (\<forall>n\<in>set names. \<forall>e.
           fst (client_get_secret sdk (client self) n (store s)) = Inl e \<longrightarrow> is_AzureError e)"
    using that get_multiple_stable_reads [of names sdk self s] by blast
  from p1 p2 p3 show ?thesis by blast
qed

theorem get_multiple_is_get_each_witness:
  "\<exists>results s'.
      get_multiple_secrets (stub_sdk True) (stub_client False) [''a'', ''zz'', ''e'', ''a'']
        (stub_state public_env [(''a'', ''1''), (''e'', '''')]) = (Inr results, s')
      \<and> fst ` set results = {''a'', ''zz'', ''e''}
      \<and> map_of results ''a'' = Some (Some ''1'')
      \<and> map_of results ''zz'' = Some None
      \<and> map_of results ''e'' = Some (Some '''')"
proof -
  let ?sdk = "stub_sdk True :: (string \<times> string) list sdk"
  let ?c = "stub_client False"
  let ?names = "[''a'', ''zz'', ''e'', ''a'']"
  let ?s = "stub_state public_env [(''a'', ''1''), (''e'', '''')]"
  have h1: "\<forall>n\<in>set ?names. \<forall>r. snd (client_get_secret ?sdk (client ?c) n r) = r"
    by (simp add: stub_sdk_def split: option.splits)
  have h2: "\<forall>n\<in>set ?names. \<forall>e.
              fst (client_get_secret ?sdk (client ?c) n (store ?s)) = Inl e \<longrightarrow> is_AzureError e"
    by (simp add: stub_sdk_def stub_state_def)
  have a: "fst (get_secret ?sdk ?c ''a'' ?s) = Inr (Some ''1'')"
    by (simp add: get_secret_def stub_sdk_def stub_state_def)
  have z: "fst (get_secret ?sdk ?c ''zz'' ?s) = Inr None"
    by (simp add: get_secret_def stub_sdk_def stub_state_def)
  have e: "fst (get_secret ?sdk ?c ''e'' ?s) = Inr (Some '''')"
    by (simp add: get_secret_def stub_sdk_def stub_state_def)
  from get_multiple_is_get_each [of ?sdk ?c ?names ?s, THEN conjunct2, THEN conjunct2] h1 h2
  obtain results s' where
    r: "get_multiple_secrets ?sdk ?c ?names ?s = (Inr results, s')"
    and k: "fst ` set results = set ?names"
    and m: "\<forall>n\<in>set ?names. \<exists>v. map_of results n = Some v \<and> fst (get_secret ?sdk ?c n ?s) = Inr v"
    by blast
  from m a have "map_of results ''a'' = Some (Some ''1'')" by simp
  moreover from m z have "map_of results ''zz'' = Some None" by simp
  moreover from m e have "map_of results ''e'' = Some (Some '''')" by simp
  moreover from k have "fst ` set results = {''a'', ''zz'', ''e''}" by auto
  ultimately show ?thesis using r by blast
qed

subsection \<open>The command line\<close>

lemma stdout_print_all: "stdout (print_all ls s) = stdout s @ ls"
  unfolding print_all_def
  by (induction ls arbitrary: s) (simp_all add: print_def)

lemma not_truthy_iff: "\<not> truthy v \<longleftrightarrow> v = None \<or> v = Some []"
  by (cases v) auto

lemma main_get:
  assumes "init sdk None (str_lower (getenv_default s0 ''DISABLE_SSL_VERIFY'' ''false'') = ''true'') s0
             = (Inr cl, s1)"
      and "str_lower (argv ! 1) = ''get''" and "3 \<le> length argv"
      and "get_secret sdk cl (argv ! 2) s1 = (Inr v, s2)"
  shows "main sdk argv s0 =
           (0, print (if truthy v then argv ! 2 @ '': '' @ the v else not_found_message (argv ! 2)) s2)"
  using assms by (simp add: main_def main_try_def Let_def)

lemma main_get_multiple:
  assumes "init sdk None (str_lower (getenv_default s0 ''DISABLE_SSL_VERIFY'' ''false'') = ''true'') s0
             = (Inr cl, s1)"
      and "str_lower (argv ! 1) = ''get-multiple''" and "3 \<le> length argv"
      and "get_multiple_secrets sdk cl (drop 2 argv) s1 = (Inr results, s2)"
  shows "main sdk argv s0 = (0, print_all (map result_line results) s2)"
  using assms by (simp add: main_def main_try_def Let_def)

lemma stub_init:
  "init (stub_sdk up) None False (stub_state public_env kv) = (Inr (stub_client False), stub_started kv)"
  by (simp add: stub_run stub_started_def)

lemma stub_flag:
  "(str_lower (getenv_default (stub_state public_env kv) ''DISABLE_SSL_VERIFY'' ''false'') = ''true'')
     = False"
  by (simp add: stub_run)

lemma stub_init_flag:
  "init (stub_sdk up) None
     (str_lower (getenv_default (stub_state public_env kv) ''DISABLE_SSL_VERIFY'' ''false'') = ''true'')
     (stub_state public_env kv) = (Inr (stub_client False), stub_started kv)"
  by (simp only: stub_flag stub_init)

lemma str_lower_commands:
  "str_lower ''get'' = ''get''" "str_lower ''set'' = ''set''" "str_lower ''list'' = ''list''"
  "str_lower ''test'' = ''test''" "str_lower ''get-multiple'' = ''get-multiple''"
  "str_lower ''bogus'' = ''bogus''"
  by (simp_all add: str_lower_def lower_char_def)

text \<open>
  C9. Once the client is constructed: when \<open>get_secret\<close> returns the empty string, the
  \<open>get\<close> command prints the same not-found line as when it returns \<open>None\<close>, and exits
  with status 0; the \<open>get-multiple\<close> command prints one line per entry of the result,
  and the line of an entry whose value is the empty string is \<open>name: [NOT FOUND]\<close>, as
  for an entry whose value is \<open>None\<close>.
\<close>

theorem empty_value_reported_as_absent:
  assumes "init sdk None (str_lower (getenv_default s0 ''DISABLE_SSL_VERIFY'' ''false'') = ''true'') s0
             = (Inr cl, s1)"
      and "3 \<le> length argv"
  shows "(str_lower (argv ! 1) = ''get'' \<and> get_secret sdk cl (argv ! 2) s1 = (Inr v, s2) \<and>
          (v = Some [] \<or> v = None)
            \<longrightarrow> fst (main sdk argv s0) = 0 \<and>
                stdout (snd (main sdk argv s0)) = stdout s2 @ [not_found_message (argv ! 2)]) \<and>
         (str_lower (argv ! 1) = ''get-multiple'' \<and>
          get_multiple_secrets sdk cl (drop 2 argv) s1 = (Inr results, s2)
            \<longrightarrow> fst (main sdk argv s0) = 0 \<and>
                stdout (snd (main sdk argv s0)) = stdout s2 @ map result_line results \<and>
                (\<forall>n. (n, Some []) \<in> set results
                       \<longrightarrow> n @ '': [NOT FOUND]'' \<in> set (stdout (snd (main sdk argv s0)))) \<and>
                (\<forall>n. (n, None) \<in> set results
                       \<longrightarrow> n @ '': [NOT FOUND]'' \<in> set (stdout (snd (main sdk argv s0)))))"
proof (intro conjI impI)
  assume a: "str_lower (argv ! 1) = ''get'' \<and> get_secret sdk cl (argv ! 2) s1 = (Inr v, s2) \<and>
          (v = Some [] \<or> v = None)"
  then have nt: "\<not> truthy v" by auto
  from a have m: "main sdk argv s0 = (0, print (not_found_message (argv ! 2)) s2)"
    using main_get [OF assms(1) _ assms(2), of v s2] nt by simp
  show "fst (main sdk argv s0) = 0" using m by simp
  show "stdout (snd (main sdk argv s0)) = stdout s2 @ [not_found_message (argv ! 2)]"
    using m by (simp add: print_def)
next
  assume a: "str_lower (argv ! 1) = ''get-multiple'' \<and>
          get_multiple_secrets sdk cl (drop 2 argv) s1 = (Inr results, s2)"
  then have m: "main sdk argv s0 = (0, print_all (map result_line results) s2)"
    using main_get_multiple [OF assms(1) _ assms(2)] by simp
  show "fst (main sdk argv s0) = 0" using m by simp
  show out: "stdout (snd (main sdk argv s0)) = stdout s2 @ map result_line results"
    using m by (simp add: stdout_print_all)
  show "\<forall>n. (n, Some []) \<in> set results
              \<longrightarrow> n @ '': [NOT FOUND]'' \<in> set (stdout (snd (main sdk argv s0)))"
  proof (intro allI impI)
    fix n assume "(n, Some []) \<in> set results"
    then have "result_line (n, Some []) \<in> set (map result_line results)" by force
    then show "n @ '': [NOT FOUND]'' \<in> set (stdout (snd (main sdk argv s0)))"
      by (simp add: out result_line_def)
  qed
  show "\<forall>n. (n, None) \<in> set results
              \<longrightarrow> n @ '': [NOT FOUND]'' \<in> set (stdout (snd (main sdk argv s0)))"
  proof (intro allI impI)
    fix n assume "(n, None) \<in> set results"
    then have "result_line (n, None) \<in> set (map result_line results)" by force
    then show "n @ '': [NOT FOUND]'' \<in> set (stdout (snd (main sdk argv s0)))"
      by (simp add: out result_line_def)
  qed
qed

theorem empty_value_reported_as_absent_witness:
  "get_secret (stub_sdk True) (stub_client False) ''e'' (stub_started [(''a'', ''1''), (''e'', '''')])
     = (Inr (Some ''''), stub_started [(''a'', ''1''), (''e'', '''')])
   \<and> fst (main (stub_sdk True) [''keyvault_client.py'', ''get'', ''e'']
            (stub_state public_env [(''a'', ''1''), (''e'', '''')])) = 0
   \<and> stdout (snd (main (stub_sdk True) [''keyvault_client.py'', ''get'', ''e'']
                    (stub_state public_env [(''a'', ''1''), (''e'', '''')])))
       = stdout (stub_started [(''a'', ''1''), (''e'', '''')]) @ [not_found_message ''e'']
   \<and> get_multiple_secrets (stub_sdk True) (stub_client False) [''a'', ''e'']
        (stub_started [(''a'', ''1''), (''e'', '''')])
     = (Inr [(''a'', Some ''1''), (''e'', Some '''')], stub_started [(''a'', ''1''), (''e'', '''')])
   \<and> ''e: [NOT FOUND]'' \<in> set (stdout (snd (main (stub_sdk True)
          [''keyvault_client.py'', ''get-multiple'', ''a'', ''e'']
          (stub_state public_env [(''a'', ''1''), (''e'', '''')]))))"
proof -
  let ?kv = "[(''a'', ''1''), (''e'', '''')]"
  let ?sdk = "stub_sdk True :: (string \<times> string) list sdk"
  let ?a1 = "[''keyvault_client.py'', ''get'', ''e'']"
  let ?a2 = "[''keyvault_client.py'', ''get-multiple'', ''a'', ''e'']"
  have g: "get_secret ?sdk (stub_client False) ''e'' (stub_started ?kv)
             = (Inr (Some ''''), stub_started ?kv)"
    by (simp add: get_secret_def stub_sdk_def stub_started_def)
  have gm: "get_multiple_secrets ?sdk (stub_client False) [''a'', ''e''] (stub_started ?kv)
             = (Inr [(''a'', Some ''1''), (''e'', Some '''')], stub_started ?kv)"
    by (simp add: get_multiple_secrets_def get_secret_def stub_sdk_def stub_started_def)
  have c1: "str_lower (?a1 ! 1) = ''get''" and c2: "str_lower (?a2 ! 1) = ''get-multiple''"
    by (simp_all add: str_lower_commands)
  have l1: "3 \<le> length ?a1" and l2: "3 \<le> length ?a2" by simp_all
  have g': "get_secret ?sdk (stub_client False) (?a1 ! 2) (stub_started ?kv)
             = (Inr (Some ''''), stub_started ?kv)"
    using g by simp
  have gm': "get_multiple_secrets ?sdk (stub_client False) (drop 2 ?a2) (stub_started ?kv)
             = (Inr [(''a'', Some ''1''), (''e'', Some '''')], stub_started ?kv)"
    using gm by simp
  note t1 = empty_value_reported_as_absent [OF stub_init_flag l1,
      where v = "Some ''''" and ?s2.0 = "stub_started ?kv" and results = "[]", THEN conjunct1]
  note t2 = empty_value_reported_as_absent [OF stub_init_flag l2,
      where v = None and ?s2.0 = "stub_started ?kv"
        and results = "[(''a'', Some ''1''), (''e'', Some '''')]", THEN conjunct2]
  from t1 c1 g' have r1: "fst (main ?sdk ?a1 (stub_state public_env ?kv)) = 0"
    and r2: "stdout (snd (main ?sdk ?a1 (stub_state public_env ?kv)))
               = stdout (stub_started ?kv) @ [not_found_message (?a1 ! 2)]"
    by blast+
  from t2 c2 gm' have
    "\<forall>n. (n, Some []) \<in> set [(''a'', Some ''1''), (''e'', Some '''')]
          \<longrightarrow> n @ '': [NOT FOUND]'' \<in> set (stdout (snd (main ?sdk ?a2 (stub_state public_env ?kv))))"
    by blast
  then have r3: "''e: [NOT FOUND]'' \<in> set (stdout (snd (main ?sdk ?a2 (stub_state public_env ?kv))))"
    by force
  from r2 have r2': "stdout (snd (main ?sdk ?a1 (stub_state public_env ?kv)))
               = stdout (stub_started ?kv) @ [not_found_message ''e'']" by simp
  from g r1 r2' gm r3 show ?thesis by blast
qed

subsection \<open>Exit status\<close>

lemma main_usage: "length argv < 2 \<Longrightarrow> fst (main sdk argv s0) = 1"
  by (simp add: main_def)

lemma main_test:
  assumes "2 \<le> length argv"
      and "init sdk None (str_lower (getenv_default s0 ''DISABLE_SSL_VERIFY'' ''false'') = ''true'') s0
             = (Inr cl, s1)"
      and "str_lower (argv ! 1) = ''test''"
  shows "fst (main sdk argv s0) = 0"
  using assms by (simp add: main_def main_try_def Let_def split: prod.splits)

lemma main_get_code:
  assumes "init sdk None (str_lower (getenv_default s0 ''DISABLE_SSL_VERIFY'' ''false'') = ''true'') s0
             = (Inr cl, s1)"
      and "str_lower (argv ! 1) = ''get''" and "3 \<le> length argv"
  shows "fst (main sdk argv s0) =
           (case fst (get_secret sdk cl (argv ! 2) s1) of Inl e \<Rightarrow> 1 | Inr v \<Rightarrow> 0)"
  using assms by (simp add: main_def main_try_def Let_def split: prod.splits sum.splits)

lemma main_set_code:
  assumes "init sdk None (str_lower (getenv_default s0 ''DISABLE_SSL_VERIFY'' ''false'') = ''true'') s0
             = (Inr cl, s1)"
      and "str_lower (argv ! 1) = ''set''" and "4 \<le> length argv"
  shows "fst (main sdk argv s0) =
           (case fst (set_secret sdk cl (argv ! 2) (argv ! 3) s1) of
              Inl e \<Rightarrow> 1 | Inr success \<Rightarrow> if success then 0 else 1)"
  using assms by (simp add: main_def main_try_def Let_def split: prod.splits sum.splits)

lemma main_list_code:
  assumes "2 \<le> length argv"
      and "init sdk None (str_lower (getenv_default s0 ''DISABLE_SSL_VERIFY'' ''false'') = ''true'') s0
             = (Inr cl, s1)"
      and "str_lower (argv ! 1) = ''list''"
  shows "fst (main sdk argv s0) =
           (case fst (list_secrets sdk cl s1) of Inl e \<Rightarrow> 1 | Inr secrets \<Rightarrow> 0)"
  using assms by (simp add: main_def main_try_def Let_def split: prod.splits sum.splits)

lemma main_get_multiple_code:
  assumes "init sdk None (str_lower (getenv_default s0 ''DISABLE_SSL_VERIFY'' ''false'') = ''true'') s0
             = (Inr cl, s1)"
      and "str_lower (argv ! 1) = ''get-multiple''" and "3 \<le> length argv"
  shows "fst (main sdk argv s0) =
           (case fst (get_multiple_secrets sdk cl (drop 2 argv) s1) of Inl e \<Rightarrow> 1 | Inr results \<Rightarrow> 0)"
  using assms by (simp add: main_def main_try_def Let_def split: prod.splits sum.splits)

lemma main_invalid:
  assumes "2 \<le> length argv"
      and "init sdk None (str_lower (getenv_default s0 ''DISABLE_SSL_VERIFY'' ''false'') = ''true'') s0
             = (Inr cl, s1)"
      and "str_lower (argv ! 1) \<noteq> ''test''"
      and "\<not> (str_lower (argv ! 1) = ''get'' \<and> 3 \<le> length argv)"
      and "\<not> (str_lower (argv ! 1) = ''set'' \<and> 4 \<le> length argv)"
      and "str_lower (argv ! 1) \<noteq> ''list''"
      and "\<not> (str_lower (argv ! 1) = ''get-multiple'' \<and> 3 \<le> length argv)"
  shows "fst (main sdk argv s0) = 1"
  using assms by (auto simp: main_def main_try_def Let_def)

text \<open>
  C4, as the code has it. The process exits with status 1 on fewer than two arguments,
  when the client cannot be constructed, on an unknown command or one that lacks its
  arguments, when an exception other than an \<open>AzureError\<close> leaves the operation, and
  when \<open>set_secret\<close> returns \<open>False\<close>. It exits with status 0 when \<open>set_secret\<close>
  returns \<open>True\<close>, when \<open>test_connection\<close> succeeds, and whenever \<open>get_secret\<close>,
  \<open>list_secrets\<close> or \<open>get_multiple_secrets\<close> returns, with or without a value. (The
  status after a failed \<open>test_connection\<close> is not part of the statement.)
\<close>

theorem exit_codes:
  assumes "cmd = str_lower (argv ! 1)"
      and "dis = (str_lower (getenv_default s0 ''DISABLE_SSL_VERIFY'' ''false'') = ''true'')"
  shows
  "(length argv < 2 \<longrightarrow> fst (main sdk argv s0) = 1) \<and>
   (2 \<le> length argv \<longrightarrow>
     (\<forall>e s1. init sdk None dis s0 = (Inl e, s1) \<longrightarrow> fst (main sdk argv s0) = 1) \<and>
     (\<forall>cl s1. init sdk None dis s0 = (Inr cl, s1) \<longrightarrow>
        (cmd = ''test'' \<and> fst (test_connection sdk cl s1) \<longrightarrow> fst (main sdk argv s0) = 0) \<and>
        (cmd = ''get'' \<and> 3 \<le> length argv \<longrightarrow>
           fst (main sdk argv s0) =
             (case fst (get_secret sdk cl (argv ! 2) s1) of Inl e \<Rightarrow> 1 | Inr v \<Rightarrow> 0)) \<and>
        (cmd = ''set'' \<and> 4 \<le> length argv \<longrightarrow>
           fst (main sdk argv s0) =
             (case fst (set_secret sdk cl (argv ! 2) (argv ! 3) s1) of
                Inl e \<Rightarrow> 1 | Inr success \<Rightarrow> if success then 0 else 1)) \<and>
        (cmd = ''list'' \<longrightarrow>
           fst (main sdk argv s0) =
             (case fst (list_secrets sdk cl s1) of Inl e \<Rightarrow> 1 | Inr secrets \<Rightarrow> 0)) \<and>
        (cmd = ''get-multiple'' \<and> 3 \<le> length argv \<longrightarrow>
           fst (main sdk argv s0) =
             (case fst (get_multiple_secrets sdk cl (drop 2 argv) s1) of
                Inl e \<Rightarrow> 1 | Inr results \<Rightarrow> 0)) \<and>
        (cmd \<noteq> ''test'' \<and> cmd \<noteq> ''list'' \<and>
         (cmd = ''get'' \<longrightarrow> length argv < 3) \<and> (cmd = ''set'' \<longrightarrow> length argv < 4) \<and>
         (cmd = ''get-multiple'' \<longrightarrow> length argv < 3)
           \<longrightarrow> fst (main sdk argv s0) = 1)))"
proof (intro conjI impI allI)
  assume "length argv < 2"
  then show "fst (main sdk argv s0) = 1" by (rule main_usage)
next
  fix e s1
  assume "init sdk None dis s0 = (Inl e, s1)"
  then show "fst (main sdk argv s0) = 1"
    unfolding assms(2) by (rule main_init_fails)
next
  fix cl s1
  assume l: "2 \<le> length argv" and i: "init sdk None dis s0 = (Inr cl, s1)"
     and c: "cmd = ''test'' \<and> fst (test_connection sdk cl s1)"
  show "fst (main sdk argv s0) = 0"
    using main_test [OF l i [unfolded assms(2)]] c assms(1) by simp
next
  fix cl s1
  assume i: "init sdk None dis s0 = (Inr cl, s1)" and c: "cmd = ''get'' \<and> 3 \<le> length argv"
  show "fst (main sdk argv s0) =
          (case fst (get_secret sdk cl (argv ! 2) s1) of Inl e \<Rightarrow> 1 | Inr v \<Rightarrow> 0)"
    using main_get_code [OF i [unfolded assms(2)]] c assms(1) by simp
next
  fix cl s1
  assume i: "init sdk None dis s0 = (Inr cl, s1)" and c: "cmd = ''set'' \<and> 4 \<le> length argv"
  show "fst (main sdk argv s0) =
          (case fst (set_secret sdk cl (argv ! 2) (argv ! 3) s1) of
             Inl e \<Rightarrow> 1 | Inr success \<Rightarrow> if success then 0 else 1)"
    using main_set_code [OF i [unfolded assms(2)]] c assms(1) by simp
next
  fix cl s1
  assume l: "2 \<le> length argv" and i: "init sdk None dis s0 = (Inr cl, s1)" and c: "cmd = ''list''"
  show "fst (main sdk argv s0) =
          (case fst (list_secrets sdk cl s1) of Inl e \<Rightarrow> 1 | Inr secrets \<Rightarrow> 0)"
    using main_list_code [OF l i [unfolded assms(2)]] c assms(1) by simp
next
  fix cl s1
  assume i: "init sdk None dis s0 = (Inr cl, s1)"
     and c: "cmd = ''get-multiple'' \<and> 3 \<le> length argv"
  show "fst (main sdk argv s0) =
          (case fst (get_multiple_secrets sdk cl (drop 2 argv) s1) of
             Inl e \<Rightarrow> 1 | Inr results \<Rightarrow> 0)"
    using main_get_multiple_code [OF i [unfolded assms(2)]] c assms(1) by simp
next
  fix cl s1
  assume l: "2 \<le> length argv" and i: "init sdk None dis s0 = (Inr cl, s1)"
     and c: "cmd \<noteq> ''test'' \<and> cmd \<noteq> ''list'' \<and>
         (cmd = ''get'' \<longrightarrow> length argv < 3) \<and> (cmd = ''set'' \<longrightarrow> length argv < 4) \<and>
         (cmd = ''get-multiple'' \<longrightarrow> length argv < 3)"
  show "fst (main sdk argv s0) = 1"
    using main_invalid [OF l i [unfolded assms(2)]] c assms(1) by auto
qed

theorem exit_codes_witness:
  "fst (main (stub_sdk True) [''keyvault_client.py''] (stub_state public_env [])) = 1
   \<and> fst (main (stub_sdk True) [''keyvault_client.py'', ''bogus''] (stub_state public_env [])) = 1
   \<and> fst (main (stub_sdk True) [''keyvault_client.py'', ''get''] (stub_state public_env [])) = 1
   \<and> fst (main (stub_sdk True) [''keyvault_client.py'', ''list''] (stub_state noscheme_env [])) = 1
   \<and> fst (set_secret (stub_sdk False) (stub_client False) ''k'' ''v'' (stub_started [])) = Inr False
   \<and> fst (main (stub_sdk False) [''keyvault_client.py'', ''set'', ''k'', ''v''] (stub_state public_env [])) = 1
   \<and> fst (set_secret (stub_sdk True) (stub_client False) ''k'' ''v'' (stub_started [])) = Inr True
   \<and> fst (main (stub_sdk True) [''keyvault_client.py'', ''set'', ''k'', ''v''] (stub_state public_env [])) = 0
   \<and> fst (test_connection (stub_sdk True) (stub_client False) (stub_started []))
   \<and> fst (main (stub_sdk True) [''keyvault_client.py'', ''test''] (stub_state public_env [])) = 0"
proof -
  let ?s = "stub_state public_env [] :: (string \<times> string) list state"
  let ?up = "stub_sdk True :: (string \<times> string) list sdk"
  let ?down = "stub_sdk False :: (string \<times> string) list sdk"
  have sF: "fst (set_secret ?down (stub_client False) ''k'' ''v'' (stub_started [])) = Inr False"
    by (simp add: set_secret_def stub_sdk_def stub_started_def unreachable_def)
  have sT: "fst (set_secret ?up (stub_client False) ''k'' ''v'' (stub_started [])) = Inr True"
    by (simp add: set_secret_def stub_sdk_def stub_started_def)
  have tc: "fst (test_connection ?up (stub_client False) (stub_started []))"
    by (simp add: test_connection_def stub_sdk_def stub_started_def print_def)
  have nf: "fst (init ?up None
              (str_lower (getenv_default (stub_state noscheme_env []) ''DISABLE_SSL_VERIFY'' ''false'') = ''true'')
              (stub_state noscheme_env [])) = Inl AttributeError_NoneType_startswith"
    by (simp add: stub_run)
  then obtain s1 where nf': "init ?up None
              (str_lower (getenv_default (stub_state noscheme_env []) ''DISABLE_SSL_VERIFY'' ''false'') = ''true'')
              (stub_state noscheme_env []) = (Inl AttributeError_NoneType_startswith, s1)"
    by (metis prod.collapse)
  have 1: "fst (main ?up [''keyvault_client.py''] ?s) = 1"
    using exit_codes [OF refl refl, of "[''keyvault_client.py'']" ?up ?s] by simp
  have 2: "fst (main ?up [''keyvault_client.py'', ''bogus''] ?s) = 1"
    using exit_codes [OF refl refl, of "[''keyvault_client.py'', ''bogus'']" ?up ?s] stub_init_flag [of True "[]"]
    by (simp add: str_lower_commands)
  have 3: "fst (main ?up [''keyvault_client.py'', ''get''] ?s) = 1"
    using exit_codes [OF refl refl, of "[''keyvault_client.py'', ''get'']" ?up ?s] stub_init_flag [of True "[]"]
    by (simp add: str_lower_commands)
  have 4: "fst (main ?up [''keyvault_client.py'', ''list''] (stub_state noscheme_env [])) = 1"
    using exit_codes [OF refl refl, of "[''keyvault_client.py'', ''list'']" ?up "stub_state noscheme_env []"] nf'
    by simp
  have 5: "fst (main ?down [''keyvault_client.py'', ''set'', ''k'', ''v''] ?s) = 1"
    using exit_codes [OF refl refl, of "[''keyvault_client.py'', ''set'', ''k'', ''v'']" ?down ?s]
      stub_init_flag [of False "[]"] sF
    by (simp add: str_lower_commands)
  have 6: "fst (main ?up [''keyvault_client.py'', ''set'', ''k'', ''v''] ?s) = 0"
    using exit_codes [OF refl refl, of "[''keyvault_client.py'', ''set'', ''k'', ''v'']" ?up ?s]
      stub_init_flag [of True "[]"] sT
    by (simp add: str_lower_commands)
  have 7: "fst (main ?up [''keyvault_client.py'', ''test''] ?s) = 0"
    using exit_codes [OF refl refl, of "[''keyvault_client.py'', ''test'']" ?up ?s]
      stub_init_flag [of True "[]"] tc
    by (simp add: str_lower_commands)
  from 1 2 3 4 sF 5 sT 6 tc 7 show ?thesis by blast
qed

text \<open>
  C4 as the spec states it fails: \<open>get\<close> of a secret the store does not hold, and
  \<open>list\<close> against a store that cannot be reached, both exit with status 0.
\<close>

theorem exit_code_on_failure_counterexample:
  "fst (get_secret (stub_sdk True) (stub_client False) ''missing'' (stub_started [])) = Inr None
   \<and> fst (main (stub_sdk True) [''keyvault_client.py'', ''get'', ''missing''] (stub_state public_env [])) = 0
   \<and> client_list_properties_of_secrets (stub_sdk False) (client (stub_client False)) (store (stub_started []))
       = (([], Some unreachable), [])
   \<and> fst (list_secrets (stub_sdk False) (stub_client False) (stub_started [])) = Inr []
   \<and> fst (main (stub_sdk False) [''keyvault_client.py'', ''list''] (stub_state public_env [])) = 0"
proof -
  let ?s = "stub_state public_env [] :: (string \<times> string) list state"
  let ?up = "stub_sdk True :: (string \<times> string) list sdk"
  let ?down = "stub_sdk False :: (string \<times> string) list sdk"
  have g: "fst (get_secret ?up (stub_client False) ''missing'' (stub_started [])) = Inr None"
    by (simp add: get_secret_def stub_sdk_def stub_started_def)
  have c: "client_list_properties_of_secrets ?down (client (stub_client False)) (store (stub_started []))
             = (([], Some unreachable), [])"
    by (simp add: stub_sdk_def stub_started_def)
  have l: "fst (list_secrets ?down (stub_client False) (stub_started [])) = Inr []"
    by (simp add: list_secrets_def c unreachable_def)
  have mg: "fst (main ?up [''keyvault_client.py'', ''get'', ''missing''] ?s) = 0"
    using main_get_code [OF stub_init_flag [of True "[]"], of "[''keyvault_client.py'', ''get'', ''missing'']"] g
    by (simp add: str_lower_commands)
  have ml: "fst (main ?down [''keyvault_client.py'', ''list''] ?s) = 0"
    using main_list_code [OF _ stub_init_flag [of False "[]"], of "[''keyvault_client.py'', ''list'']"] l
    by (simp add: str_lower_commands)
  from g mg c l ml show ?thesis by blast
qed

end
